theory Spec2Isabelle
  imports Main "HOL-Library.Sublist"
begin

section \<open>Text, bytes and errors\<close>

text \<open>
  A Python \<^verbatim>\<open>str\<close> is a sequence of Unicode code points and a Python \<^verbatim>\<open>bytes\<close> a sequence
  of octets. Both are lists of naturals here: code points range over \<open>0 .. 0x10FFFF\<close>,
  octets over \<open>0 .. 255\<close>. \<open>str\<close> turns an ASCII literal into its code points.
\<close>

type_synonym pystr = "nat list"
type_synonym pybytes = "nat list"

definition str :: "string \<Rightarrow> pystr" where
  "str = map of_char"

text \<open>
  Every exception that can leave the plugin code is a value: \<open>AnsibleError\<close> carries its
  message, the two codec errors come from \<^verbatim>\<open>bytes.decode\<close> and \<^verbatim>\<open>str.encode\<close>,
  \<open>BinasciiError\<close> from \<^verbatim>\<open>base64.b64decode\<close>, and \<open>TransportError\<close> stands for any
  exception raised inside the psrp library (open, close, invoke).
\<close>

datatype error =
    AnsibleError pystr
  | UnicodeDecodeError
  | UnicodeEncodeError
  | BinasciiError
  | TransportError pystr

subsection \<open>The codecs of the standard library that \<^verbatim>\<open>exec_command\<close> calls\<close>

definition is_b64 :: "nat \<Rightarrow> bool" where
  \<comment> \<open>the character class \<^verbatim>\<open>[A-Za-z0-9+/]\<close>\<close>
  "is_b64 c \<longleftrightarrow> (65 \<le> c \<and> c \<le> 90) \<or> (97 \<le> c \<and> c \<le> 122) \<or> (48 \<le> c \<and> c \<le> 57)
     \<or> c = 43 \<or> c = 47"

definition b64_val :: "nat \<Rightarrow> nat" where
  "b64_val c = (if 65 \<le> c \<and> c \<le> 90 then c - 65
                else if 97 \<le> c \<and> c \<le> 122 then c - 71
                else if 48 \<le> c \<and> c \<le> 57 then c + 4
                else if c = 43 then 62 else 63)"

text \<open>
  \<^verbatim>\<open>base64.b64decode\<close> on text made of complete groups of four, the last one possibly
  padded. That is the only shape \<^verbatim>\<open>exec_command\<close> hands to it (lemma \<open>b64decode_payload\<close>
  below); any other text is mapped to \<open>BinasciiError\<close> here. In a padded group the unused
  low bits of the last character are dropped, as the non-strict decoder does.
\<close>

fun b64decode :: "pystr \<Rightarrow> error + pybytes" where
  "b64decode [] = Inr []"
| "b64decode (a # b # c # d # rest) =
     (if is_b64 a \<and> is_b64 b \<and> is_b64 c \<and> is_b64 d then
        (case b64decode rest of
           Inl e \<Rightarrow> Inl e
         | Inr bs \<Rightarrow>
             (let n = ((b64_val a * 64 + b64_val b) * 64 + b64_val c) * 64 + b64_val d
              in Inr (n div 65536 # (n div 256) mod 256 # n mod 256 # bs)))
      else if is_b64 a \<and> is_b64 b \<and> is_b64 c \<and> d = 61 \<and> rest = [] then
        (let n = (b64_val a * 64 + b64_val b) * 64 + b64_val c
         in Inr [n div 1024, (n div 4) mod 256])
      else if is_b64 a \<and> is_b64 b \<and> c = 61 \<and> d = 61 \<and> rest = [] then
        Inr [(b64_val a * 64 + b64_val b) div 16]
      else Inl BinasciiError)"
| "b64decode _ = Inl BinasciiError"

text \<open>
  \<^verbatim>\<open>bytes.decode("utf-16-le")\<close> with the default strict error handling: two octets per
  code unit, low octet first; a high surrogate must be followed by a low surrogate; a lone
  low surrogate, an unpaired high surrogate and an odd trailing octet all raise
  \<^verbatim>\<open>UnicodeDecodeError\<close>.
\<close>

fun utf16le_decode :: "pybytes \<Rightarrow> error + pystr" where
  "utf16le_decode [] = Inr []"
| "utf16le_decode [b] = Inl UnicodeDecodeError"
| "utf16le_decode (l # h # rest) =
     (let u = l + 256 * h in
      if u < 0xD800 \<or> 0xE000 \<le> u then
        (case utf16le_decode rest of Inl e \<Rightarrow> Inl e | Inr cs \<Rightarrow> Inr (u # cs))
      else if 0xDC00 \<le> u then Inl UnicodeDecodeError
      else
        (case rest of
           l2 # h2 # rest2 \<Rightarrow>
             (let u2 = l2 + 256 * h2 in
              if 0xDC00 \<le> u2 \<and> u2 < 0xE000 then
                (case utf16le_decode rest2 of
                   Inl e \<Rightarrow> Inl e
                 | Inr cs \<Rightarrow> Inr ((0x10000 + (u - 0xD800) * 1024 + (u2 - 0xDC00)) # cs))
              else Inl UnicodeDecodeError)
         | _ \<Rightarrow> Inl UnicodeDecodeError))"

text \<open>
  \<^verbatim>\<open>str.encode()\<close>: UTF-8, strict. A surrogate code point cannot be encoded and raises
  \<^verbatim>\<open>UnicodeEncodeError\<close>; so does, in this model, a number that is no code point at all.
\<close>

definition utf8_encode_cp :: "nat \<Rightarrow> pybytes" where
  "utf8_encode_cp c =
     (if c < 0x80 then [c]
      else if c < 0x800 then [0xC0 + c div 64, 0x80 + c mod 64]
      else if c < 0x10000 then [0xE0 + c div 4096, 0x80 + (c div 64) mod 64, 0x80 + c mod 64]
      else [0xF0 + c div 262144, 0x80 + (c div 4096) mod 64, 0x80 + (c div 64) mod 64,
            0x80 + c mod 64])"

definition encodable :: "nat \<Rightarrow> bool" where
  "encodable c \<longleftrightarrow> c < 0x110000 \<and> \<not> (0xD800 \<le> c \<and> c < 0xE000)"

fun utf8_encode :: "pystr \<Rightarrow> error + pybytes" where
  "utf8_encode [] = Inr []"
| "utf8_encode (c # cs) =
     (if encodable c then
        (case utf8_encode cs of Inl e \<Rightarrow> Inl e | Inr bs \<Rightarrow> Inr (utf8_encode_cp c @ bs))
      else Inl UnicodeEncodeError)"

text \<open>
  \<^verbatim>\<open>bytes.decode()\<close>: UTF-8, strict. Overlong forms, surrogates, values above
  \<open>0x10FFFF\<close>, stray continuation octets and truncated sequences raise
  \<^verbatim>\<open>UnicodeDecodeError\<close>.
\<close>

definition is_cont :: "nat \<Rightarrow> bool" where
  "is_cont b \<longleftrightarrow> 0x80 \<le> b \<and> b < 0xC0"

fun utf8_decode :: "pybytes \<Rightarrow> error + pystr" where
  "utf8_decode [] = Inr []"
| "utf8_decode (b # bs) =
     (if b < 0x80 then
        (case utf8_decode bs of Inl e \<Rightarrow> Inl e | Inr cs \<Rightarrow> Inr (b # cs))
      else if 0xC2 \<le> b \<and> b < 0xE0 then
        (case bs of
           b1 # r \<Rightarrow>
             (if is_cont b1 then
                (case utf8_decode r of
                   Inl e \<Rightarrow> Inl e
                 | Inr cs \<Rightarrow> Inr (((b - 0xC0) * 64 + (b1 - 0x80)) # cs))
              else Inl UnicodeDecodeError)
         | _ \<Rightarrow> Inl UnicodeDecodeError)
      else if 0xE0 \<le> b \<and> b < 0xF0 then
        (case bs of
           b1 # b2 # r \<Rightarrow>
             (if is_cont b1 \<and> is_cont b2 \<and> (if b = 0xE0 then 0xA0 \<le> b1 else True)
                 \<and> (if b = 0xED then b1 < 0xA0 else True) then
                (case utf8_decode r of
                   Inl e \<Rightarrow> Inl e
                 | Inr cs \<Rightarrow>
                     Inr ((((b - 0xE0) * 64 + (b1 - 0x80)) * 64 + (b2 - 0x80)) # cs))
              else Inl UnicodeDecodeError)
         | _ \<Rightarrow> Inl UnicodeDecodeError)
      else if 0xF0 \<le> b \<and> b < 0xF5 then
        (case bs of
           b1 # b2 # b3 # r \<Rightarrow>
             (if is_cont b1 \<and> is_cont b2 \<and> is_cont b3 \<and> (if b = 0xF0 then 0x90 \<le> b1 else True)
                 \<and> (if b = 0xF4 then b1 < 0x90 else True) then
                (case utf8_decode r of
                   Inl e \<Rightarrow> Inl e
                 | Inr cs \<Rightarrow>
                     Inr (((((b - 0xF0) * 64 + (b1 - 0x80)) * 64 + (b2 - 0x80)) * 64
                           + (b3 - 0x80)) # cs))
              else Inl UnicodeDecodeError)
         | _ \<Rightarrow> Inl UnicodeDecodeError)
      else Inl UnicodeDecodeError)"


section \<open>The encoded-command pattern\<close>

text \<open>
  \<^verbatim>\<open>_COMMAND_PATTERN\<close> is the regular expression
  \<^verbatim>\<open>-EncodedCommand ((?:[A-Za-z0-9+/]{4})*(?:[A-Za-z0-9+/]{2}==|[A-Za-z0-9+/]{3}=)?)$\<close>,
  used through \<^verbatim>\<open>search\<close>. The matcher below follows the backtracking semantics of
  Python's \<^verbatim>\<open>re\<close>, piece by piece; each function returns the text captured by group 1.
\<close>

definition command_literal :: pystr where
  "command_literal = str ''-EncodedCommand ''"

definition at_end :: "pystr \<Rightarrow> bool" where
  \<comment> \<open>\<^verbatim>\<open>$\<close> without MULTILINE: the end of the text, or just before a newline that ends it\<close>
  "at_end r \<longleftrightarrow> r = [] \<or> r = [10]"

definition match_tail :: "pystr \<Rightarrow> pystr option" where
  \<comment> \<open>\<^verbatim>\<open>(?:[A-Za-z0-9+/]{2}==|[A-Za-z0-9+/]{3}=)?$\<close>: first alternative, second alternative,
      then the empty match of the optional group\<close>
  "match_tail r =
     (case r of
        a # b # c # d # r' \<Rightarrow>
          if is_b64 a \<and> is_b64 b \<and> c = 61 \<and> d = 61 \<and> at_end r' then Some [a, b, c, d]
          else if is_b64 a \<and> is_b64 b \<and> is_b64 c \<and> d = 61 \<and> at_end r' then Some [a, b, c, d]
          else if at_end r then Some [] else None
      | _ \<Rightarrow> if at_end r then Some [] else None)"

fun match_groups :: "pystr \<Rightarrow> pystr option" where
  \<comment> \<open>\<^verbatim>\<open>(?:[A-Za-z0-9+/]{4})*\<close> and what follows it: the star is greedy, so one more group
      is tried first, and the rest of the pattern is tried here when that fails\<close>
  "match_groups (a # b # c # d # r) =
     (if is_b64 a \<and> is_b64 b \<and> is_b64 c \<and> is_b64 d then
        (case match_groups r of
           Some g \<Rightarrow> Some (a # b # c # d # g)
         | None \<Rightarrow> match_tail (a # b # c # d # r))
      else match_tail (a # b # c # d # r))"
| "match_groups r = match_tail r"

fun search :: "pystr \<Rightarrow> pystr option" where
  \<comment> \<open>\<^verbatim>\<open>_COMMAND_PATTERN.search(cmd)\<close>: the leftmost position where the pattern matches;
      the result is \<^verbatim>\<open>b64cmd[1]\<close>\<close>
  "search [] = None"
| "search (c # cs) =
     (if prefix command_literal (c # cs) then
        (case match_groups (drop (length command_literal) (c # cs)) of
           Some g \<Rightarrow> Some g
         | None \<Rightarrow> search cs)
      else search cs)"

subsection \<open>The pattern as the specification words it\<close>

text \<open>
  Zero or more groups of four base64 characters, optionally ended by a group with one or
  two padding characters.
\<close>

fun b64_payload :: "pystr \<Rightarrow> bool" where
  "b64_payload [] = True"
| "b64_payload [a, b, c, d] =
     (is_b64 a \<and> is_b64 b \<and> ((c = 61 \<and> d = 61) \<or> (is_b64 c \<and> (d = 61 \<or> is_b64 d))))"
| "b64_payload (a # b # c # d # r) =
     (is_b64 a \<and> is_b64 b \<and> is_b64 c \<and> is_b64 d \<and> b64_payload r)"
| "b64_payload _ = False"

definition encoded_suffix :: "pystr \<Rightarrow> bool" where
  \<comment> \<open>the text ends with \<^verbatim>\<open>-EncodedCommand \<close> followed by such a payload\<close>
  "encoded_suffix cmd \<longleftrightarrow>
     list_ex (\<lambda>s. prefix command_literal s \<and> b64_payload (drop (length command_literal) s))
       (suffixes cmd)"

definition spaced_encoded_suffix :: "pystr \<Rightarrow> bool" where
  \<comment> \<open>the same with a space required before \<^verbatim>\<open>-EncodedCommand\<close>\<close>
  "spaced_encoded_suffix cmd \<longleftrightarrow>
     list_ex (\<lambda>s. prefix (32 # command_literal) s
                  \<and> b64_payload (drop (Suc (length command_literal)) s))
       (suffixes cmd)"


section \<open>The connection plugin\<close>

subsection \<open>Connection information\<close>

text \<open>
  The options of the two plugins, as \<^verbatim>\<open>get_option\<close> returns them: an option that is not
  set is \<open>None\<close>. \<^verbatim>\<open>psrp.ProcessInfo\<close> and \<^verbatim>\<open>psrp.WSManInfo\<close> are kept as the arguments
  they are built from.
\<close>

record local_options =
  executable :: "pystr option"
  arguments :: "pystr list option"

record winrm_options =
  hostname :: "pystr option"
  remote_user :: "pystr option"
  remote_password :: "pystr option"
  use_tls :: bool
  port :: "int option"
  path :: "pystr option"
  auth :: "pystr option"
  cert_validation :: "pystr option"

record wsman_info =
  ws_server :: "pystr option"
  ws_scheme :: pystr
  ws_port :: int
  ws_path :: "pystr option"
  ws_verify :: bool
  ws_auth :: "pystr option"
  ws_username :: "pystr option"
  ws_password :: "pystr option"

datatype connection_info =
    ProcessInfo "pystr option" "pystr list option"
  | WSManInfo wsman_info

datatype plugin = PsrpLocal local_options | PsrpWinrm winrm_options

definition winrm_connection_info :: "winrm_options \<Rightarrow> wsman_info" where
  \<comment> \<open>\<^verbatim>\<open>psrp_winrm.Connection._get_connection_info\<close>\<close>
  "winrm_connection_info opts =
     (let port = (case port opts of None \<Rightarrow> (if use_tls opts then 5986 else 5985) | Some p \<Rightarrow> p)
      in \<lparr> ws_server = hostname opts,
           ws_scheme = (if use_tls opts then str ''https'' else str ''http''),
           ws_port = port,
           ws_path = path opts,
           ws_verify = (cert_validation opts \<noteq> Some (str ''ignore'')),
           ws_auth = auth opts,
           ws_username = remote_user opts,
           ws_password = remote_password opts \<rparr>)"

fun get_connection_info :: "plugin \<Rightarrow> connection_info" where
  "get_connection_info (PsrpLocal opts) = ProcessInfo (executable opts) (arguments opts)"
| "get_connection_info (PsrpWinrm opts) = WSManInfo (winrm_connection_info opts)"

fun transport :: "plugin \<Rightarrow> pystr" where
  "transport (PsrpLocal opts) = str ''jborean93.psrp.psrp_local''"
| "transport (PsrpWinrm opts) = str ''jborean93.psrp.psrp_wsman''"

subsection \<open>State\<close>

text \<open>
  A runspace pool object is known by its identity (a serial number given at construction)
  and the connection information it was built with. Its \<^verbatim>\<open>state\<close> attribute belongs to
  the psrp library and is read from there when \<^verbatim>\<open>close\<close> asks for it.
\<close>

record runspace_pool =
  rs_id :: nat
  rs_info :: connection_info

datatype pool_state =
    BeforeOpen | Opening | Opened | Closed | Closing | Broken
  | NegotiationSent | NegotiationSucceeded | Connecting | Disconnected

text \<open>Every call into the psrp library is written to a log, in the order it is made.\<close>

datatype transport_call =
    NewPool nat connection_info
  | OpenPool nat
  | ClosePool nat
  | NewPipeline nat
  | AddScript pystr
  | Invoke "pystr option"
  | CopyFile nat pystr pystr
  | FetchFile nat pystr pystr

text \<open>
  The fields of \<^verbatim>\<open>PSRPBaseConnection\<close> that its methods read and write:
  \<^verbatim>\<open>_ps_host.exit_code\<close>, the two \<^verbatim>\<open>StringIO\<close> buffers of \<^verbatim>\<open>_ps_host_ui\<close>,
  \<^verbatim>\<open>_runspace\<close> and \<^verbatim>\<open>_connected\<close>; then the log of library calls and the number of
  pools constructed so far.
\<close>

record connection =
  ps_host_exit_code :: int
  ps_host_ui_stdout :: pystr
  ps_host_ui_stderr :: pystr
  runspace :: "runspace_pool option"
  connected :: bool
  transport_log :: "transport_call list"
  pools_made :: nat

definition new_connection :: connection where
  \<comment> \<open>\<^verbatim>\<open>PSRPBaseConnection.__init__\<close>\<close>
  "new_connection =
     \<lparr> ps_host_exit_code = 0, ps_host_ui_stdout = [], ps_host_ui_stderr = [],
       runspace = None, connected = False, transport_log = [], pools_made = 0 \<rparr>"

definition record_call :: "transport_call \<Rightarrow> connection \<Rightarrow> connection" where
  "record_call c s = s\<lparr>transport_log := transport_log s @ [c]\<rparr>"

record plugin_env =
  has_psrp :: bool
  psrp_imp_err :: pystr
  plugin :: plugin

subsection \<open>Host callbacks\<close>

text \<open>
  The methods of \<^verbatim>\<open>PSHost\<close> and \<^verbatim>\<open>PSHostUI\<close> that the psrp library calls while a pipeline
  runs. \<^verbatim>\<open>write\<close> and \<^verbatim>\<open>write_line\<close> ignore their extra arguments.
\<close>

datatype host_call =
    SetShouldExit int
  | Write pystr
  | WriteDebugLine pystr
  | WriteErrorLine pystr
  | WriteLine "pystr option"
  | WriteVerboseLine pystr
  | WriteWarningLine pystr
  | WriteProgress "pystr list"

fun host_callback :: "host_call \<Rightarrow> connection \<Rightarrow> connection" where
  "host_callback (SetShouldExit code) s = s\<lparr>ps_host_exit_code := code\<rparr>"
| "host_callback (Write val) s = s\<lparr>ps_host_ui_stdout := ps_host_ui_stdout s @ val\<rparr>"
| "host_callback (WriteDebugLine line) s =
     s\<lparr>ps_host_ui_stdout := ps_host_ui_stdout s @ str ''DEBUG: '' @ line @ [10]\<rparr>"
| "host_callback (WriteErrorLine line) s =
     s\<lparr>ps_host_ui_stderr := ps_host_ui_stderr s @ line @ [10]\<rparr>"
| "host_callback (WriteLine line) s =
     s\<lparr>ps_host_ui_stdout :=
         ps_host_ui_stdout s @ (case line of None \<Rightarrow> [] | Some l \<Rightarrow> l) @ [10]\<rparr>"
| "host_callback (WriteVerboseLine line) s =
     s\<lparr>ps_host_ui_stdout := ps_host_ui_stdout s @ str ''VERBOSE: '' @ line @ [10]\<rparr>"
| "host_callback (WriteWarningLine line) s =
     s\<lparr>ps_host_ui_stdout := ps_host_ui_stdout s @ str ''WARNING: '' @ line @ [10]\<rparr>"
| "host_callback (WriteProgress args) s = s"

subsection \<open>Session life cycle\<close>

definition get_runspace ::
  "plugin_env \<Rightarrow> connection \<Rightarrow> error option \<Rightarrow> (error + runspace_pool) \<times> connection" where
  \<comment> \<open>\<^verbatim>\<open>_get_runspace\<close>; \<open>open_reply\<close> is what \<^verbatim>\<open>open()\<close> raises, if it is called and raises\<close>
  "get_runspace env s open_reply =
     (if \<not> has_psrp env then
        (Inl (AnsibleError (str ''pypsrp or dependencies are not installed: ''
                            @ psrp_imp_err env)), s)
      else
        (case runspace s of
           Some rs \<Rightarrow> (Inr rs, s)
         | None \<Rightarrow>
             (let rs = \<lparr> rs_id = pools_made s, rs_info = get_connection_info (plugin env) \<rparr>;
                  s1 = record_call (NewPool (rs_id rs) (rs_info rs))
                         (s\<lparr>pools_made := Suc (pools_made s)\<rparr>);
                  s2 = record_call (OpenPool (rs_id rs)) (s1\<lparr>runspace := Some rs\<rparr>)
              in (case open_reply of
                    Some e \<Rightarrow> (Inl e, s2)
                  | None \<Rightarrow> (Inr rs, s2\<lparr>connected := True\<rparr>)))))"

definition close ::
  "plugin_env \<Rightarrow> connection \<Rightarrow> error option \<Rightarrow> pool_state \<Rightarrow> error option
     \<Rightarrow> (error + unit) \<times> connection" where
  \<comment> \<open>\<^verbatim>\<open>close\<close>; \<open>reported\<close> is the value of \<^verbatim>\<open>runspace.state\<close>, \<open>close_reply\<close> what
      \<^verbatim>\<open>runspace.close()\<close> raises, if it is called and raises\<close>
  "close env s open_reply reported close_reply =
     (if \<not> connected s then (Inr (), s)
      else
        (case get_runspace env s open_reply of
           (Inl e, s1) \<Rightarrow> (Inl e, s1)
         | (Inr rs, s1) \<Rightarrow>
             (if reported = Opened then
                (case close_reply of
                   Some e \<Rightarrow> (Inl e, record_call (ClosePool (rs_id rs)) s1)
                 | None \<Rightarrow>
                     (Inr (), (record_call (ClosePool (rs_id rs)) s1)
                                \<lparr>runspace := None, connected := False\<rparr>))
              else (Inr (), s1\<lparr>runspace := None, connected := False\<rparr>))))"

definition reset ::
  "plugin_env \<Rightarrow> connection \<Rightarrow> error option \<Rightarrow> pool_state \<Rightarrow> error option \<Rightarrow> error option
     \<Rightarrow> (error + unit) \<times> connection" where
  \<comment> \<open>\<^verbatim>\<open>reset\<close>; the last argument is the reply to the \<^verbatim>\<open>open()\<close> of the new pool\<close>
  "reset env s open_reply reported close_reply reopen_reply =
     (if \<not> connected s then (Inr (), s)
      else
        (case close env s open_reply reported close_reply of
           (Inl e, s1) \<Rightarrow> (Inl e, s1)
         | (Inr u, s1) \<Rightarrow>
             (case get_runspace env s1 reopen_reply of
                (Inl e, s2) \<Rightarrow> (Inl e, s2)
              | (Inr rs, s2) \<Rightarrow> (Inr (), s2))))"

definition put_file ::
  "plugin_env \<Rightarrow> connection \<Rightarrow> pystr \<Rightarrow> pystr \<Rightarrow> error option \<Rightarrow> error option
     \<Rightarrow> (error + unit) \<times> connection" where
  "put_file env s in_path out_path open_reply copy_reply =
     (case get_runspace env s open_reply of
        (Inl e, s1) \<Rightarrow> (Inl e, s1)
      | (Inr rs, s1) \<Rightarrow>
          (let s2 = record_call (CopyFile (rs_id rs) in_path out_path) s1
           in (case copy_reply of Some e \<Rightarrow> (Inl e, s2) | None \<Rightarrow> (Inr (), s2))))"

definition fetch_file ::
  "plugin_env \<Rightarrow> connection \<Rightarrow> pystr \<Rightarrow> pystr \<Rightarrow> error option \<Rightarrow> error option
     \<Rightarrow> (error + unit) \<times> connection" where
  "fetch_file env s in_path out_path open_reply fetch_reply =
     (case get_runspace env s open_reply of
        (Inl e, s1) \<Rightarrow> (Inl e, s1)
      | (Inr rs, s1) \<Rightarrow>
          (let s2 = record_call (FetchFile (rs_id rs) in_path out_path) s1
           in (case fetch_reply of Some e \<Rightarrow> (Inl e, s2) | None \<Rightarrow> (Inr (), s2))))"


subsection \<open>Running a command\<close>

text \<open>
  What the remote end does during one \<^verbatim>\<open>ps.invoke\<close>: a sequence of events in the order
  they happen (an object written to the output stream, a record written to the error
  stream, a call back into the host), then either an exception or a normal return, after
  which \<^verbatim>\<open>ps.had_errors\<close> can be read. Output objects and error records are represented
  by the text \<^verbatim>\<open>str()\<close> gives for them.
\<close>

datatype remote_event = Output pystr | ErrorRecord pystr | HostCall host_call

record invocation =
  events :: "remote_event list"
  raised :: "error option"
  had_errors :: bool

fun run_event :: "remote_event \<Rightarrow> connection \<Rightarrow> connection" where
  "run_event (HostCall c) s = host_callback c s"
| "run_event (Output t) s = s"
| "run_event (ErrorRecord t) s = s"

definition run_events :: "remote_event list \<Rightarrow> connection \<Rightarrow> connection" where
  "run_events evs s = fold run_event evs s"

fun output_of :: "remote_event list \<Rightarrow> pystr list" where
  "output_of [] = []"
| "output_of (Output t # evs) = t # output_of evs"
| "output_of (e # evs) = output_of evs"

fun error_stream_of :: "remote_event list \<Rightarrow> pystr list" where
  "error_stream_of [] = []"
| "error_stream_of (ErrorRecord t # evs) = t # error_stream_of evs"
| "error_stream_of (e # evs) = error_stream_of evs"

fun join :: "pystr \<Rightarrow> pystr list \<Rightarrow> pystr" where
  \<comment> \<open>\<^verbatim>\<open>sep.join(xs)\<close>\<close>
  "join sep [] = []"
| "join sep [x] = x"
| "join sep (x # y # ys) = x @ sep @ join sep (y # ys)"

definition decode_input :: "pybytes option \<Rightarrow> error + pystr option" where
  \<comment> \<open>\<^verbatim>\<open>in_data.decode() if in_data else None\<close>\<close>
  "decode_input in_data =
     (case in_data of
        None \<Rightarrow> Inr None
      | Some bs \<Rightarrow>
          (if bs = [] then Inr None
           else (case utf8_decode bs of Inl e \<Rightarrow> Inl e | Inr t \<Rightarrow> Inr (Some t))))"

definition is_linebreak :: "nat \<Rightarrow> bool" where
  \<comment> \<open>the line boundaries of \<^verbatim>\<open>str.splitlines\<close>\<close>
  "is_linebreak c \<longleftrightarrow> c \<in> {0x0A, 0x0B, 0x0C, 0x0D, 0x1C, 0x1D, 0x1E, 0x85, 0x2028, 0x2029}"

definition interpreter_of :: "pystr \<Rightarrow> pystr" where
  \<comment> \<open>\<^verbatim>\<open>input_data.splitlines()[0][2:]\<close>, for text that starts with \<^verbatim>\<open>#!\<close>\<close>
  "interpreter_of t = drop 2 (takeWhile (\<lambda>c. \<not> is_linebreak c) t)"

definition shebang_interpreter :: "pystr option \<Rightarrow> pystr option" where
  \<comment> \<open>the interpreter, when \<^verbatim>\<open>input_data and input_data.startswith("#!")\<close> holds\<close>
  "shebang_interpreter input_data =
     (case input_data of
        None \<Rightarrow> None
      | Some t \<Rightarrow> if prefix (str ''#!'') t then Some (interpreter_of t) else None)"

definition interpreter_message :: "pystr \<Rightarrow> pystr \<Rightarrow> pystr" where
  "interpreter_message interpreter tr =
     str ''cannot run the interpreter '' @ [39] @ interpreter @ [39] @ str '' on the '' @ tr
       @ str '' connection plugin''"

definition exit_suffix :: pystr where
  "exit_suffix = str ''\<newline>exit $LASTEXITCODE''"

definition invoke_pipeline ::
  "connection \<Rightarrow> pystr option \<Rightarrow> invocation
     \<Rightarrow> (error + int \<times> pybytes \<times> pybytes) \<times> connection" where
  \<comment> \<open>\<^verbatim>\<open>exec_command\<close> from \<^verbatim>\<open>ps.invoke\<close> to its \<^verbatim>\<open>return\<close>\<close>
  "invoke_pipeline s input_data remote =
     (let s1 = run_events (events remote) (record_call (Invoke input_data) s) in
      (case raised remote of
         Some e \<Rightarrow> (Inl e, s1)
       | None \<Rightarrow>
           (let rc = (if ps_host_exit_code s1 \<noteq> 0 then ps_host_exit_code s1
                      else if had_errors remote then 1 else 0);
                stdout = output_of (events remote)
                           @ (if ps_host_ui_stdout s1 \<noteq> [] then [ps_host_ui_stdout s1] else []);
                stderr = error_stream_of (events remote)
                           @ (if ps_host_ui_stderr s1 \<noteq> [] then [ps_host_ui_stderr s1] else []);
                s2 = s1\<lparr>ps_host_exit_code := 0, ps_host_ui_stdout := [],
                        ps_host_ui_stderr := []\<rparr>
            in (case utf8_encode (join [10] stdout) of
                  Inl e \<Rightarrow> (Inl e, s2)
                | Inr out \<Rightarrow>
                    (case utf8_encode (join [10] stderr) of
                       Inl e \<Rightarrow> (Inl e, s2)
                     | Inr err \<Rightarrow> (Inr (rc, out, err), s2))))))"

definition exec_command ::
  "plugin_env \<Rightarrow> connection \<Rightarrow> pystr \<Rightarrow> pybytes option \<Rightarrow> error option \<Rightarrow> invocation
     \<Rightarrow> (error + int \<times> pybytes \<times> pybytes) \<times> connection" where
  \<comment> \<open>\<^verbatim>\<open>exec_command\<close>; \<open>open_reply\<close> answers the \<^verbatim>\<open>open()\<close> of \<^verbatim>\<open>_get_runspace\<close>, \<open>remote\<close> is
      what the remote end does if the pipeline is invoked\<close>
  "exec_command env s cmd in_data open_reply remote =
     (case decode_input in_data of
        Inl e \<Rightarrow> (Inl e, s)
      | Inr input_data \<Rightarrow>
          (case get_runspace env s open_reply of
             (Inl e, s1) \<Rightarrow> (Inl e, s1)
           | (Inr rs, s1) \<Rightarrow>
               (let s2 = record_call (NewPipeline (rs_id rs)) s1 in
                (case search cmd of
                   Some b64cmd \<Rightarrow>
                     (case b64decode b64cmd of
                        Inl e \<Rightarrow> (Inl e, s2)
                      | Inr raw \<Rightarrow>
                          (case utf16le_decode raw of
                             Inl e \<Rightarrow> (Inl e, s2)
                           | Inr script \<Rightarrow>
                               (let s3 = record_call (AddScript script) s2 in
                                (case shebang_interpreter input_data of
                                   Some interpreter \<Rightarrow>
                                     (Inl (AnsibleError
                                             (interpreter_message interpreter
                                                (transport (plugin env)))), s3)
                                 | None \<Rightarrow> invoke_pipeline s3 input_data remote))))
                 | None \<Rightarrow>
                     invoke_pipeline (record_call (AddScript (cmd @ exit_suffix)) s2)
                       input_data remote))))"

section \<open>Auxiliary notions for the properties\<close>

text \<open>The host sink: the exit code and the two buffers that the host callbacks write.\<close>

definition sink :: "connection \<Rightarrow> int \<times> pystr \<times> pystr" where
  "sink s = (ps_host_exit_code s, ps_host_ui_stdout s, ps_host_ui_stderr s)"

text \<open>The session: the held runspace pool and the connected flag.\<close>

definition session :: "connection \<Rightarrow> runspace_pool option \<times> bool" where
  "session s = (runspace s, connected s)"

text \<open>Calling \<^verbatim>\<open>_get_runspace\<close> again and again, each call with its own reply from the library.\<close>

fun get_runspace_repeat ::
  "plugin_env \<Rightarrow> connection \<Rightarrow> error option list
     \<Rightarrow> (error + runspace_pool) list \<times> connection" where
  "get_runspace_repeat env s [] = ([], s)"
| "get_runspace_repeat env s (r # rs) =
     (case get_runspace env s r of
        (x, s1) \<Rightarrow> (case get_runspace_repeat env s1 rs of (xs, s2) \<Rightarrow> (x # xs, s2)))"

text \<open>The scripts handed to \<^verbatim>\<open>add_script\<close> and the pipeline invocations, read off a log.\<close>

fun added_scripts :: "transport_call list \<Rightarrow> pystr list" where
  "added_scripts [] = []"
| "added_scripts (AddScript t # cs) = t # added_scripts cs"
| "added_scripts (c # cs) = added_scripts cs"

fun invocations :: "transport_call list \<Rightarrow> pystr option list" where
  "invocations [] = []"
| "invocations (Invoke i # cs) = i # invocations cs"
| "invocations (c # cs) = invocations cs"

fun is_progress :: "remote_event \<Rightarrow> bool" where
  "is_progress (HostCall (WriteProgress args)) = True"
| "is_progress e = False"

definition without_progress :: "invocation \<Rightarrow> invocation" where
  "without_progress remote = remote\<lparr>events := filter (\<lambda>e. \<not> is_progress e) (events remote)\<rparr>"

text \<open>
  The text that precedes the host text in a returned stream: the structured lines joined
  by newlines, and the newline that separates them from host text when both are there.
\<close>

definition structured_text :: "pystr list \<Rightarrow> pystr \<Rightarrow> pystr" where
  "structured_text ls host = join [10] ls @ (if ls \<noteq> [] \<and> host \<noteq> [] then [10] else [])"

text \<open>
  How \<^verbatim>\<open>exec_command\<close> classifies a command: the branch taken at
  \<^verbatim>\<open>if b64cmd := _COMMAND_PATTERN.search(cmd)\<close>.
\<close>

definition is_encoded_command :: "pystr \<Rightarrow> bool" where
  "is_encoded_command cmd \<longleftrightarrow> search cmd \<noteq> None"

subsection \<open>Concrete inputs\<close>

definition local_env :: plugin_env where
  "local_env =
     \<lparr> has_psrp = True, psrp_imp_err = [],
       plugin = PsrpLocal \<lparr> executable = Some (str ''pwsh''),
                            arguments = Some [str ''-NoProfile'', str ''-NoLogo'',
                                              str ''-ServerMode''] \<rparr> \<rparr>"

definition tls_options :: winrm_options where
  "tls_options =
     \<lparr> hostname = Some (str ''server''), remote_user = None, remote_password = None,
       use_tls = True, port = None, path = Some (str ''wsman''),
       auth = Some (str ''negotiate''), cert_validation = Some (str ''ignore'') \<rparr>"

definition exit7_with_errors :: invocation where
  "exit7_with_errors =
     \<lparr> events = [HostCall (SetShouldExit 7)], raised = None, had_errors = True \<rparr>"

definition errors_only :: invocation where
  "errors_only = \<lparr> events = [], raised = None, had_errors = True \<rparr>"

definition quiet :: invocation where
  "quiet = \<lparr> events = [], raised = None, had_errors = False \<rparr>"

definition failing_after_callbacks :: invocation where
  "failing_after_callbacks =
     \<lparr> events = [HostCall (SetShouldExit 5), HostCall (Write (str ''boom''))],
       raised = Some (TransportError (str ''pipeline failed'')), had_errors = True \<rparr>"

definition interleaved :: invocation where
  "interleaved =
     \<lparr> events = [HostCall (Write (str ''h1'')), Output (str ''o1''),
                 HostCall (WriteErrorLine (str ''e1'')), ErrorRecord (str ''r1''),
                 HostCall (WriteProgress []), Output (str ''o2'')],
       raised = None, had_errors = False \<rparr>"

definition local_pool :: runspace_pool where
  "local_pool = \<lparr> rs_id = 0, rs_info = get_connection_info (plugin local_env) \<rparr>"

definition opened_connection :: connection where
  \<comment> \<open>\<open>new_connection\<close> after a first, successful \<^verbatim>\<open>_get_runspace\<close>\<close>
  "opened_connection =
     \<lparr> ps_host_exit_code = 0, ps_host_ui_stdout = [], ps_host_ui_stderr = [],
       runspace = Some local_pool, connected = True,
       transport_log = [NewPool 0 (get_connection_info (plugin local_env)), OpenPool 0],
       pools_made = 1 \<rparr>"

definition encoded_whoami :: pystr where
  \<comment> \<open>the payload is \<open>whoami\<close> in UTF-16LE, in base64\<close>
  "encoded_whoami = str ''powershell -EncodedCommand dwBoAG8AYQBtAGkA''"

definition shebang_input :: pybytes where
  "shebang_input = str ''#!/usr/bin/python'' @ [10] @ str ''import sys''"

section \<open>Properties\<close>

subsection \<open>Frame lemmas\<close>

lemma sink_host_callback:
  "sink s = sink t \<Longrightarrow> sink (host_callback c s) = sink (host_callback c t)"
  by (cases c) (simp_all add: sink_def)

lemma sink_run_event: "sink s = sink t \<Longrightarrow> sink (run_event e s) = sink (run_event e t)"
  by (cases e) (simp_all, erule sink_host_callback)

lemma sink_run_events:
  "sink s = sink t \<Longrightarrow> sink (run_events evs s) = sink (run_events evs t)"
  unfolding run_events_def
proof (induction evs arbitrary: s t)
  case Nil
  then show ?case by simp
next
  case (Cons e evs)
  from Cons.prems have "sink (run_event e s) = sink (run_event e t)"
    by (rule sink_run_event)
  then have "sink (fold run_event evs (run_event e s)) = sink (fold run_event evs (run_event e t))"
    by (rule Cons.IH)
  then show ?case by simp
qed

lemma sink_record_call: "sink (record_call c s) = sink s"
  by (simp add: sink_def record_call_def)

lemma sink_get_runspace: "get_runspace env s r = (x, s1) \<Longrightarrow> sink s1 = sink s"
  by (auto simp: get_runspace_def sink_def record_call_def Let_def
      split: if_splits option.splits)

subsection \<open>Connection information\<close>

text \<open>
  C9. The WinRM resolver, when no port is configured, resolves port 5986 and scheme
  \<open>https\<close> if \<open>use_tls\<close> is true and port 5985 and scheme \<open>http\<close> otherwise; certificate
  verification is off exactly when \<open>cert_validation\<close> is \<open>ignore\<close>, whatever else is
  configured (also when the option is not set).
\<close>

theorem winrm_defaults:
  "(port opts = None \<longrightarrow>
      ws_port (winrm_connection_info opts) = (if use_tls opts then 5986 else 5985)
      \<and> ws_scheme (winrm_connection_info opts)
          = (if use_tls opts then str ''https'' else str ''http''))
   \<and> (ws_verify (winrm_connection_info opts) \<longleftrightarrow> cert_validation opts \<noteq> Some (str ''ignore''))"
  by (simp add: winrm_connection_info_def Let_def)

theorem winrm_defaults_witness:
  "port tls_options = None
   \<and> ws_port (winrm_connection_info tls_options) = 5986
   \<and> ws_scheme (winrm_connection_info tls_options) = str ''https''
   \<and> \<not> ws_verify (winrm_connection_info tls_options)"
  using winrm_defaults [of tls_options] by (simp add: tls_options_def)

subsection \<open>Session life cycle\<close>

text \<open>
  C7. \<^verbatim>\<open>close\<close> on a connection that is not connected returns normally, makes no call
  into the library and changes nothing; so does \<^verbatim>\<open>reset\<close>. Whatever the library would
  have replied plays no part.
\<close>

theorem close_reset_unopened:
  "\<not> connected s \<Longrightarrow>
     close env s open_reply reported close_reply = (Inr (), s)
     \<and> reset env s open_reply reported close_reply reopen_reply = (Inr (), s)"
  by (simp add: close_def reset_def)

theorem close_reset_unopened_witness:
  "\<not> connected new_connection
   \<and> close local_env new_connection None Opened None = (Inr (), new_connection)
   \<and> reset local_env new_connection None Opened None None = (Inr (), new_connection)
   \<and> transport_log new_connection = []"
  using close_reset_unopened [of new_connection local_env None Opened None None]
  by (simp add: new_connection_def)

lemma get_runspace_open:
  "runspace s = Some rs \<Longrightarrow> has_psrp env \<Longrightarrow> get_runspace env s r = (Inr rs, s)"
  by (simp add: get_runspace_def)

lemma get_runspace_repeat_open:
  "runspace s = Some rs \<Longrightarrow> has_psrp env \<Longrightarrow>
     get_runspace_repeat env s replies = (replicate (length replies) (Inr rs), s)"
  by (induction replies) (auto simp: get_runspace_open)

text \<open>
  C6. On a connection that holds no runspace pool, \<^verbatim>\<open>_get_runspace\<close> constructs one pool
  and opens it, once; when the open succeeds the pool is returned and the connection is
  connected. Every later call, however many, returns that same pool, and leaves the
  connection and the log of library calls as they are: nothing is reopened or created.
\<close>

theorem get_runspace_idempotent:
  assumes "has_psrp env" and "runspace s = None"
    and "get_runspace env s reply = (res, s1)"
  shows "transport_log s1 = transport_log s
           @ [NewPool (pools_made s) (get_connection_info (plugin env)),
              OpenPool (pools_made s)]
    \<and> (\<exists>rs. runspace s1 = Some rs \<and> rs_id rs = pools_made s
          \<and> (reply = None \<longrightarrow> res = Inr rs \<and> connected s1)
          \<and> get_runspace_repeat env s1 replies = (replicate (length replies) (Inr rs), s1))"
proof -
  let ?ci = "get_connection_info (plugin env)"
  let ?rs = "\<lparr> rs_id = pools_made s, rs_info = ?ci \<rparr>"
  from assms have rs: "runspace s1 = Some ?rs"
    by (auto simp: get_runspace_def record_call_def Let_def split: option.splits)
  from assms have lg: "transport_log s1 = transport_log s
      @ [NewPool (pools_made s) ?ci, OpenPool (pools_made s)]"
    by (auto simp: get_runspace_def record_call_def Let_def split: option.splits)
  from assms have ok: "reply = None \<longrightarrow> res = Inr ?rs \<and> connected s1"
    by (auto simp: get_runspace_def record_call_def Let_def split: option.splits)
  from rs lg ok get_runspace_repeat_open [OF rs assms(1)] show ?thesis
    by simp
qed

theorem get_runspace_idempotent_witness:
  "has_psrp local_env \<and> runspace new_connection = None
   \<and> transport_log (snd (get_runspace local_env new_connection None))
       = [NewPool 0 (get_connection_info (plugin local_env)), OpenPool 0]
   \<and> connected (snd (get_runspace local_env new_connection None))
   \<and> get_runspace_repeat local_env (snd (get_runspace local_env new_connection None))
        [None, None, None]
       = ([fst (get_runspace local_env new_connection None),
           fst (get_runspace local_env new_connection None),
           fst (get_runspace local_env new_connection None)],
          snd (get_runspace local_env new_connection None))"
proof -
  have h1: "has_psrp local_env"
    by (simp add: local_env_def)
  have h2: "runspace new_connection = None"
    by (simp add: new_connection_def)
  have h3: "get_runspace local_env new_connection None
      = (fst (get_runspace local_env new_connection None),
         snd (get_runspace local_env new_connection None))"
    by simp
  have h4: "pools_made new_connection = 0" "transport_log new_connection = []"
    by (simp_all add: new_connection_def)
  from get_runspace_idempotent [OF h1 h2 h3, of "[None, None, None]"] h1 h2 h4
  show ?thesis
    by auto
qed

subsection \<open>Evaluating the concrete inputs\<close>

lemma search_whoami: "search (str ''whoami'') = None"
  by (simp add: str_def command_literal_def)

lemma has_psrp_local_env: "has_psrp local_env"
  by (simp add: local_env_def)

lemma get_runspace_new:
  "get_runspace local_env new_connection None = (Inr local_pool, opened_connection)"
  by (simp add: get_runspace_def has_psrp_local_env new_connection_def record_call_def
      Let_def opened_connection_def local_pool_def)

lemma get_runspace_opened:
  "get_runspace local_env opened_connection r = (Inr local_pool, opened_connection)"
  by (simp add: get_runspace_def has_psrp_local_env opened_connection_def)

lemma exec_whoami:
  "exec_command local_env new_connection (str ''whoami'') None None remote
     = invoke_pipeline
         (opened_connection
            \<lparr>transport_log := transport_log opened_connection
               @ [NewPipeline 0, AddScript (str ''whoami'' @ exit_suffix)]\<rparr>) None remote"
  by (simp add: exec_command_def decode_input_def get_runspace_new search_whoami
      record_call_def Let_def local_pool_def)

subsection \<open>Host callbacks\<close>

lemma run_event_progress: "is_progress e \<Longrightarrow> run_event e s = s"
  by (cases e rule: is_progress.cases) simp_all

lemma run_events_without_progress:
  "run_events (filter (\<lambda>e. \<not> is_progress e) evs) s = run_events evs s"
  unfolding run_events_def
  by (induction evs arbitrary: s) (simp_all add: run_event_progress)

lemma output_of_without_progress:
  "output_of (filter (\<lambda>e. \<not> is_progress e) evs) = output_of evs"
  by (induction evs rule: output_of.induct) simp_all

lemma error_stream_of_without_progress:
  "error_stream_of (filter (\<lambda>e. \<not> is_progress e) evs) = error_stream_of evs"
  by (induction evs rule: error_stream_of.induct) simp_all

lemma invoke_pipeline_without_progress:
  "invoke_pipeline s input_data (without_progress remote) = invoke_pipeline s input_data remote"
  by (simp add: invoke_pipeline_def without_progress_def run_events_without_progress
      output_of_without_progress error_stream_of_without_progress
      cong: option.case_cong sum.case_cong if_cong)

text \<open>
  C10. \<^verbatim>\<open>write_progress\<close>, with any arguments, leaves the whole connection state as it
  is, the sink included; and a command gives the same result and the same final state
  whether or not the remote end sent progress records while it ran.
\<close>

theorem write_progress_no_effect:
  "host_callback (WriteProgress args) s = s
   \<and> exec_command env s cmd in_data open_reply (without_progress remote)
       = exec_command env s cmd in_data open_reply remote"
  by (simp add: exec_command_def invoke_pipeline_without_progress
      cong: option.case_cong sum.case_cong prod.case_cong)

subsection \<open>The result of a command\<close>

lemma exec_command_cases:
  assumes "exec_command env s cmd in_data open_reply remote = (res, s')"
  shows "(\<exists>sx input_data. sink sx = sink s
            \<and> invoke_pipeline sx input_data remote = (res, s'))
         \<or> (\<exists>e. res = Inl e \<and> sink s' = sink s)"
proof (cases "decode_input in_data")
  case (Inl e)
  with assms show ?thesis by (auto simp: exec_command_def)
next
  case (Inr input_data)
  obtain x s1 where g: "get_runspace env s open_reply = (x, s1)"
    by (cases "get_runspace env s open_reply")
  then have s1: "sink s1 = sink s" by (rule sink_get_runspace)
  show ?thesis
  proof (cases x)
    case (Inl e)
    with assms Inr g s1 show ?thesis by (auto simp: exec_command_def)
  next
    case rs: (Inr rs)
    have k: "\<And>a b. sink (record_call a (record_call b s1)) = sink s"
      by (simp add: sink_record_call s1)
    have k1: "\<And>a. sink (record_call a s1) = sink s"
      by (simp add: sink_record_call s1)
    from assms Inr g rs show ?thesis
      by (auto simp: exec_command_def Let_def k k1
          split: option.splits sum.splits intro: k)
  qed
qed

lemma invoke_pipeline_rc:
  assumes "invoke_pipeline sx input_data remote = (Inr (rc, out, err), s')"
    and "sink sx = sink s"
  shows "rc = (if ps_host_exit_code (run_events (events remote) s) \<noteq> 0
               then ps_host_exit_code (run_events (events remote) s)
               else if had_errors remote then 1 else 0)"
proof -
  have "sink (run_events (events remote) (record_call (Invoke input_data) sx))
      = sink (run_events (events remote) s)"
    by (rule sink_run_events) (simp add: sink_record_call assms(2))
  then have e: "ps_host_exit_code (run_events (events remote) (record_call (Invoke input_data) sx))
      = ps_host_exit_code (run_events (events remote) s)"
    by (simp add: sink_def)
  from assms(1) show ?thesis
    unfolding invoke_pipeline_def Let_def e
    by (auto split: option.splits sum.splits if_splits)
qed

text \<open>
  C1. Whenever \<^verbatim>\<open>exec_command\<close> returns, its exit code is the exit code the host sink holds
  after the callbacks of this invocation when that code is not zero; otherwise it is 1 if
  the pipeline had errors and 0 if not.
\<close>

theorem exec_command_exit_code:
  assumes "exec_command env s cmd in_data open_reply remote = (Inr (rc, out, err), s')"
  shows "rc = (if ps_host_exit_code (run_events (events remote) s) \<noteq> 0
               then ps_host_exit_code (run_events (events remote) s)
               else if had_errors remote then 1 else 0)"
proof -
  from exec_command_cases [OF assms]
  obtain sx input_data where "sink sx = sink s"
    and "invoke_pipeline sx input_data remote = (Inr (rc, out, err), s')"
    by auto
  then show ?thesis
    using invoke_pipeline_rc by blast
qed

theorem exec_command_exit_code_witness:
  "(exec_command local_env new_connection (str ''whoami'') None None exit7_with_errors
      = (Inr (7, [], []),
         snd (exec_command local_env new_connection (str ''whoami'') None None
                exit7_with_errors))
    \<and> exec_command local_env new_connection (str ''whoami'') None None errors_only
      = (Inr (1, [], []),
         snd (exec_command local_env new_connection (str ''whoami'') None None errors_only)))
   \<and> (7 = (if ps_host_exit_code (run_events (events exit7_with_errors) new_connection) \<noteq> 0
            then ps_host_exit_code (run_events (events exit7_with_errors) new_connection)
            else if had_errors exit7_with_errors then 1 else 0)
      \<and> 1 = (if ps_host_exit_code (run_events (events errors_only) new_connection) \<noteq> 0
              then ps_host_exit_code (run_events (events errors_only) new_connection)
              else if had_errors errors_only then 1 else 0))"
proof -
  have h7: "exec_command local_env new_connection (str ''whoami'') None None exit7_with_errors
      = (Inr (7, [], []),
         snd (exec_command local_env new_connection (str ''whoami'') None None
                exit7_with_errors))"
    by (simp add: exec_whoami invoke_pipeline_def exit7_with_errors_def run_events_def
        record_call_def opened_connection_def Let_def)
  have h1: "exec_command local_env new_connection (str ''whoami'') None None errors_only
      = (Inr (1, [], []),
         snd (exec_command local_env new_connection (str ''whoami'') None None errors_only))"
    by (simp add: exec_whoami invoke_pipeline_def errors_only_def run_events_def
        record_call_def opened_connection_def Let_def)
  show ?thesis
    by (rule conjI [OF conjI [OF h7 h1]
          conjI [OF exec_command_exit_code [OF h7] exec_command_exit_code [OF h1]]])
qed

lemma utf8_encode_append:
  "utf8_encode (a @ b) = Inr z \<Longrightarrow>
     \<exists>x y. utf8_encode a = Inr x \<and> utf8_encode b = Inr y \<and> z = x @ y"
  by (induction a arbitrary: z) (auto split: if_splits sum.splits)

lemma join_snoc: "join sep (ls @ [h]) = (if ls = [] then h else join sep ls @ sep @ h)"
  by (induction sep ls rule: join.induct) simp_all

lemma join_host_last:
  "join [10] (ls @ (if h \<noteq> [] then [h] else [])) = structured_text ls h @ h"
  by (simp add: structured_text_def join_snoc)

lemma invoke_pipeline_streams:
  assumes "invoke_pipeline sx input_data remote = (Inr (rc, out, err), s')"
    and "sink sx = sink s"
  shows "utf8_encode (structured_text (output_of (events remote))
                        (ps_host_ui_stdout (run_events (events remote) s))
                      @ ps_host_ui_stdout (run_events (events remote) s)) = Inr out
       \<and> utf8_encode (structured_text (error_stream_of (events remote))
                        (ps_host_ui_stderr (run_events (events remote) s))
                      @ ps_host_ui_stderr (run_events (events remote) s)) = Inr err"
proof -
  have "sink (run_events (events remote) (record_call (Invoke input_data) sx))
      = sink (run_events (events remote) s)"
    by (rule sink_run_events) (simp add: sink_record_call assms(2))
  then have e: "ps_host_ui_stdout (run_events (events remote) (record_call (Invoke input_data) sx))
      = ps_host_ui_stdout (run_events (events remote) s)"
    "ps_host_ui_stderr (run_events (events remote) (record_call (Invoke input_data) sx))
      = ps_host_ui_stderr (run_events (events remote) s)"
    by (simp_all add: sink_def)
  from assms(1) show ?thesis
    unfolding invoke_pipeline_def Let_def e join_host_last
    by (auto split: option.splits sum.splits)
qed

text \<open>
  C5. In what \<^verbatim>\<open>exec_command\<close> returns, the text the host callbacks of this invocation
  wrote to the stdout buffer is the last part of stdout, after the text of every output
  object, and the text they wrote to the stderr buffer is the last part of stderr, after
  every error record; the order in which the remote end produced objects, records and
  callbacks plays no part.
\<close>

theorem host_text_after_structured:
  assumes "exec_command env s cmd in_data open_reply remote = (Inr (rc, out, err), s')"
  shows "\<exists>out_structured out_host err_structured err_host.
           out = out_structured @ out_host \<and> err = err_structured @ err_host
           \<and> utf8_encode (structured_text (output_of (events remote))
                 (ps_host_ui_stdout (run_events (events remote) s))) = Inr out_structured
           \<and> utf8_encode (ps_host_ui_stdout (run_events (events remote) s)) = Inr out_host
           \<and> utf8_encode (structured_text (error_stream_of (events remote))
                 (ps_host_ui_stderr (run_events (events remote) s))) = Inr err_structured
           \<and> utf8_encode (ps_host_ui_stderr (run_events (events remote) s)) = Inr err_host"
proof -
  from exec_command_cases [OF assms]
  obtain sx input_data where "sink sx = sink s"
    and "invoke_pipeline sx input_data remote = (Inr (rc, out, err), s')"
    by auto
  then have "utf8_encode (structured_text (output_of (events remote))
                        (ps_host_ui_stdout (run_events (events remote) s))
                      @ ps_host_ui_stdout (run_events (events remote) s)) = Inr out"
    and "utf8_encode (structured_text (error_stream_of (events remote))
                        (ps_host_ui_stderr (run_events (events remote) s))
                      @ ps_host_ui_stderr (run_events (events remote) s)) = Inr err"
    using invoke_pipeline_streams by blast+
  from utf8_encode_append [OF this(1)] utf8_encode_append [OF this(2)] show ?thesis
    by blast
qed

theorem host_text_after_structured_witness:
  "exec_command local_env new_connection (str ''whoami'') None None interleaved
     = (Inr (0, str ''o1'' @ [10] @ str ''o2'' @ [10] @ str ''h1'',
                str ''r1'' @ [10] @ str ''e1'' @ [10]),
        snd (exec_command local_env new_connection (str ''whoami'') None None interleaved))
   \<and> (\<exists>out_structured out_host err_structured err_host.
         str ''o1'' @ [10] @ str ''o2'' @ [10] @ str ''h1'' = out_structured @ out_host
         \<and> str ''r1'' @ [10] @ str ''e1'' @ [10] = err_structured @ err_host
         \<and> utf8_encode (structured_text (output_of (events interleaved))
               (ps_host_ui_stdout (run_events (events interleaved) new_connection)))
             = Inr out_structured
         \<and> utf8_encode (ps_host_ui_stdout (run_events (events interleaved) new_connection))
             = Inr out_host
         \<and> utf8_encode (structured_text (error_stream_of (events interleaved))
               (ps_host_ui_stderr (run_events (events interleaved) new_connection)))
             = Inr err_structured
         \<and> utf8_encode (ps_host_ui_stderr (run_events (events interleaved) new_connection))
             = Inr err_host)"
proof -
  have h: "exec_command local_env new_connection (str ''whoami'') None None interleaved
     = (Inr (0, str ''o1'' @ [10] @ str ''o2'' @ [10] @ str ''h1'',
                str ''r1'' @ [10] @ str ''e1'' @ [10]),
        snd (exec_command local_env new_connection (str ''whoami'') None None interleaved))"
    unfolding exec_whoami
    by (simp add: invoke_pipeline_def interleaved_def run_events_def
        record_call_def opened_connection_def Let_def str_def encodable_def
        utf8_encode_cp_def)
  show ?thesis
    by (rule conjI [OF h host_text_after_structured [OF h]])
qed

subsection \<open>Resetting the sink\<close>

lemma sink_reset_on_return:
  assumes "exec_command env s cmd in_data open_reply remote = (Inr r, s')"
  shows "sink s' = (0, [], [])"
proof -
  from exec_command_cases [OF assms]
  obtain sx input_data where "invoke_pipeline sx input_data remote = (Inr r, s')"
    by auto
  then show ?thesis
    by (auto simp: invoke_pipeline_def Let_def sink_def split: option.splits sum.splits)
qed

text \<open>
  C4, evaluated where it fails. The first command runs on a fresh connection; the remote
  end asks for exit code 5, writes \<open>boom\<close> to the host, and the invocation then raises.
  The exception leaves \<^verbatim>\<open>exec_command\<close> with the sink still holding 5 and \<open>boom\<close>, and the
  next command, during which the remote end does nothing at all, returns exit code 5 and
  stdout \<open>boom\<close>.
\<close>

theorem sink_kept_when_invoke_raises:
  "fst (exec_command local_env new_connection (str ''whoami'') None None
          failing_after_callbacks) = Inl (TransportError (str ''pipeline failed''))
   \<and> sink (snd (exec_command local_env new_connection (str ''whoami'') None None
                  failing_after_callbacks)) = (5, str ''boom'', [])
   \<and> fst (exec_command local_env
            (snd (exec_command local_env new_connection (str ''whoami'') None None
                    failing_after_callbacks))
            (str ''whoami'') None None quiet) = Inr (5, str ''boom'', [])"
proof -
  have a: "exec_command local_env new_connection (str ''whoami'') None None
        failing_after_callbacks
      = (Inl (TransportError (str ''pipeline failed'')),
         opened_connection
           \<lparr>ps_host_exit_code := 5, ps_host_ui_stdout := str ''boom'',
            transport_log := transport_log opened_connection
              @ [NewPipeline 0, AddScript (str ''whoami'' @ exit_suffix), Invoke None]\<rparr>)"
    by (simp add: exec_whoami invoke_pipeline_def failing_after_callbacks_def run_events_def
        record_call_def opened_connection_def Let_def)
  have b: "fst (exec_command local_env
        (opened_connection
           \<lparr>ps_host_exit_code := 5, ps_host_ui_stdout := str ''boom'',
            transport_log := transport_log opened_connection
              @ [NewPipeline 0, AddScript (str ''whoami'' @ exit_suffix), Invoke None]\<rparr>)
        (str ''whoami'') None None quiet) = Inr (5, str ''boom'', [])"
    unfolding exec_command_def search_whoami
    by (simp add: decode_input_def get_runspace_def has_psrp_local_env
        invoke_pipeline_def quiet_def run_events_def record_call_def
        opened_connection_def Let_def str_def encodable_def utf8_encode_cp_def)
  show ?thesis
    unfolding a using b by (simp add: sink_def opened_connection_def)
qed

subsection \<open>The encoded-command pattern\<close>

lemma length_command_literal: "length command_literal = 16"
  by (simp add: command_literal_def str_def)

lemma match_tail_sound:
  "match_tail r = Some g \<Longrightarrow> b64_payload g \<and> (r = g \<or> r = g @ [10])"
  by (auto simp: match_tail_def at_end_def split: list.splits if_splits)

lemma match_groups_sound:
  "match_groups r = Some g \<Longrightarrow> b64_payload g \<and> (r = g \<or> r = g @ [10])"
proof (induction r arbitrary: g rule: match_groups.induct)
  case (1 a b c d r)
  show ?case
  proof (cases "is_b64 a \<and> is_b64 b \<and> is_b64 c \<and> is_b64 d")
    case True
    show ?thesis
    proof (cases "match_groups r")
      case None
      with True 1 show ?thesis by (simp add: match_tail_sound)
    next
      case (Some g')
      with True 1 have g: "g = a # b # c # d # g'" by simp
      from "1.IH" [OF True Some] have "b64_payload g'" and "r = g' \<or> r = g' @ [10]"
        by simp_all
      with True g show ?thesis by (cases g') auto
    qed
  next
    case False
    with 1 show ?thesis by (simp add: match_tail_sound)
  qed
qed (auto dest: match_tail_sound)


lemma match_groups_complete:
  "b64_payload g \<Longrightarrow> match_groups g = Some g \<and> match_groups (g @ [10]) = Some g"
proof (induction g rule: b64_payload.induct)
  case 1
  show ?case by (simp add: match_tail_def at_end_def)
next
  case (2 a b c d)
  then show ?case
    by (auto simp: match_tail_def at_end_def is_b64_def)
next
  case (3 a b c d v va)
  then show ?case by simp
qed simp_all

lemma search_unfold:
  "search s =
     (if s = [] then None
      else if prefix command_literal s then
        (case match_groups (drop 16 s) of Some g \<Rightarrow> Some g | None \<Rightarrow> search (tl s))
      else search (tl s))"
  by (cases s) (auto simp: length_command_literal split: option.splits)

lemma search_sound:
  "search cmd = Some g \<Longrightarrow>
     b64_payload g
     \<and> (\<exists>pre. cmd = pre @ command_literal @ g \<or> cmd = pre @ command_literal @ g @ [10])"
proof (induction cmd)
  case Nil
  then show ?case by simp
next
  case (Cons c cs)
  show ?case
  proof (cases "prefix command_literal (c # cs)
                 \<and> match_groups (drop 16 (c # cs)) = Some g")
    case True
    then obtain t where t: "c # cs = command_literal @ t"
      by (auto simp: prefix_def)
    then have "drop 16 (c # cs) = t"
      by (simp add: length_command_literal)
    with True have "match_groups t = Some g" by simp
    from match_groups_sound [OF this] t show ?thesis
      by (metis append_Nil)
  next
    case False
    with Cons.prems have "search cs = Some g"
      by (auto simp: length_command_literal split: if_splits option.splits)
    from Cons.IH [OF this] show ?thesis
      by (metis append_Cons)
  qed
qed

lemma payload_chars: "b64_payload g \<Longrightarrow> c \<in> set g \<Longrightarrow> is_b64 c \<or> c = 61"
  by (induction g rule: b64_payload.induct) auto

lemma space_after_literal:
  "16 \<le> length p \<Longrightarrow> 32 \<in> set (drop 16 (p @ [32] @ t))"
  by simp

lemma mem_before_newline:
  "x \<in> set d \<Longrightarrow> d = g \<or> d = g @ [10] \<Longrightarrow> x \<noteq> (10::nat) \<Longrightarrow> x \<in> set g"
  by auto

lemma no_earlier_match:
  assumes "match_groups (drop 16 (c # pre @ command_literal @ t)) = Some g'"
  shows False
proof -
  let ?s = "c # pre @ command_literal @ t"
  have "command_literal = butlast command_literal @ [32]"
    by (simp add: command_literal_def str_def)
  then have "?s = (c # pre @ butlast command_literal) @ [32] @ t"
    by (metis append_Cons append_assoc)
  moreover have "16 \<le> length (c # pre @ butlast command_literal)"
    by (simp add: length_command_literal)
  ultimately have mem: "32 \<in> set (drop 16 ?s)"
    using space_after_literal by metis
  from match_groups_sound [OF assms]
  have p: "b64_payload g'" and d: "drop 16 ?s = g' \<or> drop 16 ?s = g' @ [10]"
    by blast+
  have "(32::nat) \<in> set g'"
    by (rule mem_before_newline [OF mem d]) simp
  from payload_chars [OF p this] show False
    by (simp add: is_b64_def)
qed

lemma search_complete:
  assumes "b64_payload g" and "nl = [] \<or> nl = [10]"
  shows "search (pre @ command_literal @ g @ nl) = Some g"
proof (induction pre)
  case Nil
  have "match_groups (g @ nl) = Some g"
    using assms match_groups_complete by auto
  moreover have "command_literal @ g @ nl \<noteq> []"
    by (simp add: command_literal_def str_def)
  ultimately show ?case
    by (subst search_unfold) (simp add: length_command_literal)
next
  case (Cons c pre)
  have "match_groups (drop 16 (c # pre @ command_literal @ g @ nl)) = None"
    using no_earlier_match [of c pre "g @ nl"] by (cases "match_groups (drop 16 (c # pre @ command_literal @ g @ nl))") auto
  with Cons show ?case
    by (simp add: length_command_literal)
qed

lemma encoded_suffix_iff:
  "encoded_suffix cmd \<longleftrightarrow> (\<exists>pre g. cmd = pre @ command_literal @ g \<and> b64_payload g)"
proof
  assume "encoded_suffix cmd"
  then obtain s where "suffix s cmd" and "prefix command_literal s"
    and p: "b64_payload (drop (length command_literal) s)"
    by (auto simp: encoded_suffix_def list_ex_iff)
  then obtain pre g where "cmd = pre @ s" and "s = command_literal @ g"
    by (auto simp: suffix_def prefix_def)
  with p show "\<exists>pre g. cmd = pre @ command_literal @ g \<and> b64_payload g"
    by auto
next
  assume "\<exists>pre g. cmd = pre @ command_literal @ g \<and> b64_payload g"
  then obtain pre g where c: "cmd = pre @ command_literal @ g" and p: "b64_payload g"
    by auto
  then have "suffix (command_literal @ g) cmd" and "prefix command_literal (command_literal @ g)"
    by (simp_all add: suffix_def)
  with p show "encoded_suffix cmd"
    unfolding encoded_suffix_def list_ex_iff
    by (intro bexI [of _ "command_literal @ g"]) simp_all
qed

text \<open>
  C8, as the code has it. A command is taken as an encoded command exactly when it, or
  what is left of it after removing one final newline, ends with \<^verbatim>\<open>-EncodedCommand \<close>
  (whatever precedes it) followed by zero or more groups of four base64 characters, the
  last group possibly ending in one or two padding characters.
\<close>

theorem encoded_command_classification:
  "is_encoded_command cmd \<longleftrightarrow>
     encoded_suffix cmd \<or> (cmd \<noteq> [] \<and> last cmd = 10 \<and> encoded_suffix (butlast cmd))"
proof
  assume "is_encoded_command cmd"
  then obtain g where "search cmd = Some g"
    by (auto simp: is_encoded_command_def)
  from search_sound [OF this] obtain pre where p: "b64_payload g"
    and d: "cmd = pre @ command_literal @ g \<or> cmd = pre @ command_literal @ g @ [10]"
    by auto
  from d show "encoded_suffix cmd
      \<or> (cmd \<noteq> [] \<and> last cmd = 10 \<and> encoded_suffix (butlast cmd))"
  proof
    assume "cmd = pre @ command_literal @ g"
    with p show ?thesis by (auto simp: encoded_suffix_iff)
  next
    assume c: "cmd = pre @ command_literal @ g @ [10]"
    then have "butlast cmd = pre @ command_literal @ g"
      by (simp add: butlast_append)
    with p c show ?thesis by (auto simp: encoded_suffix_iff)
  qed
next
  assume "encoded_suffix cmd
      \<or> (cmd \<noteq> [] \<and> last cmd = 10 \<and> encoded_suffix (butlast cmd))"
  then show "is_encoded_command cmd"
  proof
    assume "encoded_suffix cmd"
    then obtain pre g where "cmd = pre @ command_literal @ g @ []" and "b64_payload g"
      by (auto simp: encoded_suffix_iff)
    then show ?thesis
      using search_complete [of g "[]" pre] by (simp add: is_encoded_command_def)
  next
    assume a: "cmd \<noteq> [] \<and> last cmd = 10 \<and> encoded_suffix (butlast cmd)"
    then obtain pre g where "butlast cmd = pre @ command_literal @ g" and p: "b64_payload g"
      by (auto simp: encoded_suffix_iff)
    moreover from a have "cmd = butlast cmd @ [10]"
      by (metis append_butlast_last_id)
    ultimately have "cmd = pre @ command_literal @ g @ [10]"
      by simp
    with p show ?thesis
      using search_complete [of g "[10]" pre] by (simp add: is_encoded_command_def)
  qed
qed

theorem encoded_command_classification_witness:
  "is_encoded_command (str ''powershell -EncodedCommand QUJD'')
   \<and> encoded_suffix (str ''powershell -EncodedCommand QUJD'')
   \<and> \<not> is_encoded_command (str ''powershell -EncodedCommand QUJ'')"
proof -
  have a: "encoded_suffix (str ''powershell -EncodedCommand QUJD'')"
    by (simp add: encoded_suffix_def str_def command_literal_def is_b64_def)
  have b: "\<not> (encoded_suffix (str ''powershell -EncodedCommand QUJ'')
      \<or> (str ''powershell -EncodedCommand QUJ'' \<noteq> []
          \<and> last (str ''powershell -EncodedCommand QUJ'') = 10
          \<and> encoded_suffix (butlast (str ''powershell -EncodedCommand QUJ''))))"
    by (simp add: encoded_suffix_def str_def command_literal_def is_b64_def)
  from a b encoded_command_classification [of "str ''powershell -EncodedCommand QUJD''"]
    encoded_command_classification [of "str ''powershell -EncodedCommand QUJ''"]
  show ?thesis by blast
qed

text \<open>
  C8, as stated, fails. A command that ends with a newline after the payload is still
  taken as an encoded command, though it does not end with the payload; and no space is
  needed before \<^verbatim>\<open>-EncodedCommand\<close>.
\<close>

theorem encoded_command_counterexample:
  "is_encoded_command (str '' -EncodedCommand QUJD'' @ [10])
   \<and> \<not> encoded_suffix (str '' -EncodedCommand QUJD'' @ [10])
   \<and> \<not> spaced_encoded_suffix (str '' -EncodedCommand QUJD'' @ [10])
   \<and> is_encoded_command (str ''x-EncodedCommand QUJD'')
   \<and> \<not> spaced_encoded_suffix (str ''x-EncodedCommand QUJD'')"
  by (simp add: is_encoded_command_def encoded_suffix_def spaced_encoded_suffix_def str_def
      command_literal_def is_b64_def match_tail_def at_end_def)

subsection \<open>The script that is submitted\<close>


lemma added_scripts_append:
  "added_scripts (xs @ ys) = added_scripts xs @ added_scripts ys"
  by (induction xs rule: added_scripts.induct) simp_all

lemma invocations_append: "invocations (xs @ ys) = invocations xs @ invocations ys"
  by (induction xs rule: invocations.induct) simp_all

lemma log_get_runspace:
  assumes "get_runspace env s r = (x, s1)"
  shows "added_scripts (transport_log s1) = added_scripts (transport_log s)
       \<and> invocations (transport_log s1) = invocations (transport_log s)"
  using assms
  by (auto simp: get_runspace_def record_call_def Let_def added_scripts_append
      invocations_append split: if_splits option.splits)





lemma exec_command_raw:
  assumes "decode_input in_data = Inr input_data"
    and "get_runspace env s open_reply = (Inr rs, s1)"
    and "search cmd = None"
  shows "exec_command env s cmd in_data open_reply remote
    = invoke_pipeline
        (record_call (AddScript (cmd @ exit_suffix)) (record_call (NewPipeline (rs_id rs)) s1))
        input_data remote"
  using assms by (simp add: exec_command_def)

lemma exec_command_undecodable:
  assumes "decode_input in_data = Inr input_data"
    and "get_runspace env s open_reply = (Inr rs, s1)"
    and "search cmd = Some payload" and "b64decode payload = Inr raw"
    and "utf16le_decode raw = Inl e"
  shows "exec_command env s cmd in_data open_reply remote
    = (Inl e, record_call (NewPipeline (rs_id rs)) s1)"
  using assms by (simp add: exec_command_def)

lemma exec_command_encoded:
  assumes "decode_input in_data = Inr input_data"
    and "get_runspace env s open_reply = (Inr rs, s1)"
    and "search cmd = Some payload" and "b64decode payload = Inr raw"
    and "utf16le_decode raw = Inr script"
  shows "exec_command env s cmd in_data open_reply remote
    = (case shebang_interpreter input_data of
         Some interpreter \<Rightarrow>
           (Inl (AnsibleError (interpreter_message interpreter (transport (plugin env)))),
            record_call (AddScript script) (record_call (NewPipeline (rs_id rs)) s1))
       | None \<Rightarrow>
           invoke_pipeline
             (record_call (AddScript script) (record_call (NewPipeline (rs_id rs)) s1))
             input_data remote)"
  using assms by (simp add: exec_command_def Let_def)



lemma encoded_whoami_shape:
  "encoded_whoami = str ''powershell '' @ command_literal @ str ''dwBoAG8AYQBtAGkA''
   \<and> b64_payload (str ''dwBoAG8AYQBtAGkA'')"
  by (simp add: encoded_whoami_def str_def command_literal_def is_b64_def)

lemma search_encoded_whoami: "search encoded_whoami = Some (str ''dwBoAG8AYQBtAGkA'')"
  using search_complete [of "str ''dwBoAG8AYQBtAGkA''" "[]" "str ''powershell ''"]
    encoded_whoami_shape by simp

lemma b64decode_whoami:
  "b64decode (str ''dwBoAG8AYQBtAGkA'') = Inr [119, 0, 104, 0, 111, 0, 97, 0, 109, 0, 105, 0]"
  by (simp add: str_def is_b64_def b64_val_def Let_def)

lemma utf16le_decode_whoami:
  "utf16le_decode [119, 0, 104, 0, 111, 0, 97, 0, 109, 0, 105, 0] = Inr (str ''whoami'')"
  by (simp add: str_def Let_def)


subsection \<open>Input that starts with a shebang\<close>

lemma decode_shebang_input: "decode_input (Some shebang_input) = Inr (Some shebang_input)"
  by (simp add: decode_input_def shebang_input_def str_def)

lemma shebang_interpreter_input:
  "shebang_interpreter (Some shebang_input) = Some (str ''/usr/bin/python'')"
  by (simp add: shebang_interpreter_def interpreter_of_def shebang_input_def str_def
      is_linebreak_def)

text \<open>
  C3, as stated, fails. With a command that is not an encoded command, input that starts
  with \<^verbatim>\<open>#!\<close> is not rejected: the pipeline is invoked with it and the call returns.
  With an encoded command on a connection that holds no runspace pool yet, the call is
  rejected only after \<^verbatim>\<open>_get_runspace\<close> has opened the session. And three failures come
  before the check: an \<^verbatim>\<open>open()\<close> that raises, a payload that is not UTF-16LE text, and
  input that is not UTF-8 text.
\<close>

theorem shebang_counterexample:
  "fst (exec_command local_env new_connection (str ''whoami'') (Some shebang_input) None
          quiet) = Inr (0, [], [])
   \<and> invocations (transport_log (snd (exec_command local_env new_connection (str ''whoami'')
         (Some shebang_input) None quiet))) = [Some shebang_input]
   \<and> session new_connection = (None, False)
   \<and> session (snd (exec_command local_env new_connection encoded_whoami
         (Some shebang_input) None quiet)) = (Some local_pool, True)
   \<and> fst (exec_command local_env new_connection encoded_whoami (Some shebang_input)
            (Some (TransportError (str ''refused''))) quiet)
       = Inl (TransportError (str ''refused''))
   \<and> fst (exec_command local_env new_connection (str ''x -EncodedCommand QQ=='')
            (Some shebang_input) None quiet) = Inl UnicodeDecodeError
   \<and> fst (exec_command local_env new_connection encoded_whoami (Some (str ''#!'' @ [255]))
            None quiet) = Inl UnicodeDecodeError"
proof -
  have a: "exec_command local_env new_connection (str ''whoami'') (Some shebang_input) None
        quiet
      = (Inr (0, [], []),
         opened_connection
           \<lparr>transport_log := transport_log opened_connection
              @ [NewPipeline 0, AddScript (str ''whoami'' @ exit_suffix),
                 Invoke (Some shebang_input)]\<rparr>)"
    unfolding exec_command_raw [OF decode_shebang_input get_runspace_new search_whoami]
    by (simp add: invoke_pipeline_def quiet_def run_events_def record_call_def
        opened_connection_def local_pool_def Let_def)
  have b: "exec_command local_env new_connection encoded_whoami (Some shebang_input) None
        quiet
      = (Inl (AnsibleError (interpreter_message (str ''/usr/bin/python'')
                (transport (plugin local_env)))),
         record_call (AddScript (str ''whoami''))
           (record_call (NewPipeline (rs_id local_pool)) opened_connection))"
    unfolding exec_command_encoded [OF decode_shebang_input get_runspace_new
        search_encoded_whoami b64decode_whoami utf16le_decode_whoami]
    by (simp add: shebang_interpreter_input)
  have c: "fst (exec_command local_env new_connection encoded_whoami (Some shebang_input)
        (Some (TransportError (str ''refused''))) quiet)
      = Inl (TransportError (str ''refused''))"
    by (simp add: exec_command_def decode_shebang_input get_runspace_def has_psrp_local_env
        new_connection_def Let_def)
  have "search (str ''x '' @ command_literal @ str ''QQ=='' @ []) = Some (str ''QQ=='')"
    by (rule search_complete) (simp_all add: str_def is_b64_def)
  then have q: "search (str ''x -EncodedCommand QQ=='') = Some (str ''QQ=='')"
    by (simp add: str_def command_literal_def)
  have d: "fst (exec_command local_env new_connection (str ''x -EncodedCommand QQ=='')
        (Some shebang_input) None quiet) = Inl UnicodeDecodeError"
  proof -
    have r: "b64decode (str ''QQ=='') = Inr [65]"
      by (simp add: str_def is_b64_def b64_val_def)
    have u: "utf16le_decode [65] = Inl UnicodeDecodeError"
      by simp
    show ?thesis
      unfolding exec_command_undecodable [OF decode_shebang_input get_runspace_new q r u]
      by simp
  qed
  have e: "fst (exec_command local_env new_connection encoded_whoami (Some (str ''#!'' @ [255]))
        None quiet) = Inl UnicodeDecodeError"
    by (simp add: exec_command_def decode_input_def str_def)
  show ?thesis
    unfolding a b c d e
    by (simp add: session_def new_connection_def opened_connection_def record_call_def)
qed

text \<open>
  C3, as the code has it. For an encoded command whose payload decodes, with input that
  decodes to text starting with \<^verbatim>\<open>#!\<close>, once \<^verbatim>\<open>_get_runspace\<close> has returned the runspace:
  the call fails with an \<^verbatim>\<open>AnsibleError\<close> whose message names the interpreter (the first
  line of the input without its first two characters) and the transport; the pipeline is
  not invoked; the host sink is as before; and when the connection already held a
  runspace pool, nothing but the log of library calls has changed.
\<close>

theorem shebang_rejected:
  assumes "search cmd = Some payload" and "b64decode payload = Inr raw"
    and "utf16le_decode raw = Inr script"
    and "decode_input in_data = Inr (Some text)" and "prefix (str ''#!'') text"
    and "get_runspace env s open_reply = (Inr rs, s1)"
  shows "exec_command env s cmd in_data open_reply remote
      = (Inl (AnsibleError
                (str ''cannot run the interpreter '' @ [39]
                 @ drop 2 (takeWhile (\<lambda>c. \<not> is_linebreak c) text) @ [39]
                 @ str '' on the '' @ transport (plugin env) @ str '' connection plugin'')),
         s1\<lparr>transport_log := transport_log s1 @ [NewPipeline (rs_id rs), AddScript script]\<rparr>)
    \<and> invocations (transport_log (snd (exec_command env s cmd in_data open_reply remote)))
        = invocations (transport_log s)
    \<and> sink (snd (exec_command env s cmd in_data open_reply remote)) = sink s
    \<and> (runspace s \<noteq> None \<longrightarrow> s1 = s)"
proof -
  have i: "shebang_interpreter (Some text)
      = Some (drop 2 (takeWhile (\<lambda>c. \<not> is_linebreak c) text))"
    using assms(5) by (simp add: shebang_interpreter_def interpreter_of_def)
  have e: "exec_command env s cmd in_data open_reply remote
      = (Inl (AnsibleError
                (str ''cannot run the interpreter '' @ [39]
                 @ drop 2 (takeWhile (\<lambda>c. \<not> is_linebreak c) text) @ [39]
                 @ str '' on the '' @ transport (plugin env) @ str '' connection plugin'')),
         s1\<lparr>transport_log := transport_log s1 @ [NewPipeline (rs_id rs), AddScript script]\<rparr>)"
    unfolding exec_command_encoded [OF assms(4,6,1,2,3)] i
    by (simp add: interpreter_message_def record_call_def)
  have l: "invocations (transport_log s1) = invocations (transport_log s)"
    using log_get_runspace [OF assms(6)] by simp
  have k: "sink s1 = sink s"
    using assms(6) by (rule sink_get_runspace)
  have r: "runspace s \<noteq> None \<longrightarrow> s1 = s"
    using assms(6) by (auto simp: get_runspace_def split: if_splits)
  from l k r show ?thesis
    unfolding e by (simp add: invocations_append sink_def)
qed

theorem shebang_rejected_witness:
  "exec_command local_env opened_connection encoded_whoami (Some shebang_input) None quiet
     = (Inl (AnsibleError
               (str ''cannot run the interpreter '' @ [39] @ str ''/usr/bin/python'' @ [39]
                @ str '' on the jborean93.psrp.psrp_local connection plugin'')),
        opened_connection
          \<lparr>transport_log := transport_log opened_connection
             @ [NewPipeline 0, AddScript (str ''whoami'')]\<rparr>)
   \<and> invocations (transport_log (snd (exec_command local_env opened_connection
         encoded_whoami (Some shebang_input) None quiet))) = []
   \<and> sink (snd (exec_command local_env opened_connection encoded_whoami
         (Some shebang_input) None quiet)) = (0, [], [])"
proof -
  have p: "prefix (str ''#!'') shebang_input"
    by (simp add: shebang_input_def str_def)
  have t: "drop 2 (takeWhile (\<lambda>c. \<not> is_linebreak c) shebang_input) = str ''/usr/bin/python''"
    by (simp add: shebang_input_def str_def is_linebreak_def)
  have tr: "str '' on the '' @ transport (plugin local_env) @ str '' connection plugin''
      = str '' on the jborean93.psrp.psrp_local connection plugin''"
    by (simp add: local_env_def str_def)
  have o: "invocations (transport_log opened_connection) = []"
    "sink opened_connection = (0, [], [])" "rs_id local_pool = 0"
    by (simp_all add: opened_connection_def sink_def local_pool_def)
  from shebang_rejected [OF search_encoded_whoami b64decode_whoami utf16le_decode_whoami
      decode_shebang_input p get_runspace_opened, of None quiet]
  show ?thesis
    unfolding t tr o by blast
qed

end
